theory Spec2Isabelle
  imports Main "HOL-Library.Word" "HOL-Library.Sublist"
begin

section \<open>Data model of \<^verbatim>\<open>App.tsx\<close>\<close>

text \<open>
  A JavaScript string is a sequence of UTF-16 code units. The Korean literals of the
  source are written out as their code units; all of them lie in the Basic Multilingual
  Plane, so one character is one code unit.
\<close>

type_synonym jsstring = "16 word list"

text \<open>\<^verbatim>\<open>interface Message { text: string; timestamp: number }\<close>. The field
  \<^verbatim>\<open>text\<close> is called \<open>text_field\<close> here, \<^verbatim>\<open>text\<close> being a keyword.\<close>

record message =
  text_field :: jsstring
  timestamp :: int

text \<open>The four \<^verbatim>\<open>useState\<close> cells of the component \<^verbatim>\<open>App\<close>.\<close>

record app_state =
  isListening :: bool
  latestTranscript :: jsstring
  messages :: "message list"
  error :: jsstring

text \<open>
  The payload of a result callback: \<^verbatim>\<open>event.resultIndex\<close> and
  \<^verbatim>\<open>event.results\<close>. Every result has the flag \<^verbatim>\<open>isFinal\<close> and is itself
  an array of alternatives, each with a \<^verbatim>\<open>transcript\<close>; the handler reads
  alternative \<^verbatim>\<open>[0]\<close>.
\<close>

record alternative =
  transcript :: jsstring

record speech_result =
  isFinal :: bool
  alternatives :: "alternative list"

record speech_event =
  resultIndex :: nat
  results :: "speech_result list"

text \<open>
  The exceptions a handler of the source can raise, and the outcome of a handler: it
  returns, or it throws after the state setters it has already called. A setter that was
  called before the exception keeps its effect.
\<close>

datatype js_error = TypeError

datatype 'a outcome = Returns 'a | Throws js_error 'a

fun state_after :: "'a outcome \<Rightarrow> 'a" where
  "state_after (Returns s) = s"
| "state_after (Throws e s) = s"

fun thrown :: "'a outcome \<Rightarrow> js_error option" where
  "thrown (Returns s) = None"
| "thrown (Throws e s) = Some e"

text \<open>
  Modelled from the spec: the platform's recognition object is not code of the
  repository. Its \<^verbatim>\<open>start()\<close> and \<^verbatim>\<open>stop()\<close> are fire-and-forget commands, so the
  object is the list of commands it has received, in order, together with the fact that
  the three handlers have been assigned to it. The module-level variable
  \<^verbatim>\<open>recognition\<close> is \<^verbatim>\<open>null\<close> when the browser has no such constructor.
\<close>

datatype command = Start | Stop

record recognizer =
  handlers :: bool
  calls :: "command list"

text \<open>
  The page: the recognition object, the current values of the four state cells, and the
  values the component function read from them at its last render. A function created in
  the body of \<^verbatim>\<open>App\<close>, such as \<^verbatim>\<open>toggleListening\<close>, sees the constants of that
  render, not the cells; a setter writes the cell, and the constants follow at the next
  render.
\<close>

record world =
  recognition :: "recognizer option"
  app :: app_state
  rendered :: app_state

section \<open>String constants of the source\<close>

text \<open>The message set when the browser has no speech recognition (57 code units).\<close>

definition unsupported_message :: jsstring where
  "unsupported_message =
    [0xC774, 0x0020, 0xBE0C, 0xB77C, 0xC6B0, 0xC800, 0xB294, 0x0020, 0xC74C, 0xC131,
     0x0020, 0xC778, 0xC2DD, 0xC744, 0x0020, 0xC9C0, 0xC6D0, 0xD558, 0xC9C0, 0x0020,
     0xC54A, 0xC2B5, 0xB2C8, 0xB2E4, 0x002E, 0x0020, 0x0043, 0x0068, 0x0072, 0x006F,
     0x006D, 0x0065, 0x0020, 0xB610, 0xB294, 0x0020, 0x0053, 0x0061, 0x0066, 0x0061,
     0x0072, 0x0069, 0x0020, 0xCD5C, 0xC2E0, 0x0020, 0xBC84, 0xC804, 0xC744, 0x0020,
     0xC0AC, 0xC6A9, 0xD574, 0xC8FC, 0xC138, 0xC694, 0x002E]"

text \<open>The error code \<^verbatim>\<open>"no-speech"\<close>.\<close>

definition no_speech_code :: jsstring where
  "no_speech_code = [0x006E, 0x006F, 0x002D, 0x0073, 0x0070, 0x0065, 0x0065, 0x0063, 0x0068]"

text \<open>The message for the code \<^verbatim>\<open>"no-speech"\<close> (26 code units).\<close>

definition no_speech_message :: jsstring where
  "no_speech_message =
    [0xC74C, 0xC131, 0xC774, 0x0020, 0xAC10, 0xC9C0, 0xB418, 0xC9C0, 0x0020, 0xC54A,
     0xC558, 0xC2B5, 0xB2C8, 0xB2E4, 0x002E, 0x0020, 0xB2E4, 0xC2DC, 0x0020, 0xC2DC,
     0xB3C4, 0xD574, 0xC8FC, 0xC138, 0xC694, 0x002E]"

text \<open>The fixed part of the template literal for every other code (10 code units,
  ending in a colon and a space).\<close>

definition generic_error_prefix :: jsstring where
  "generic_error_prefix =
    [0xC74C, 0xC131, 0x0020, 0xC778, 0xC2DD, 0x0020, 0xC624, 0xB958, 0x003A, 0x0020]"

section \<open>\<^verbatim>\<open>String.prototype.trim\<close>\<close>

text \<open>
  The code units that \<^verbatim>\<open>trim\<close> removes from both ends: the white space and line
  terminators of ECMAScript (TAB, LF, VT, FF, CR, SP, NBSP, U+1680, U+2000 to U+200A,
  U+2028, U+2029, U+202F, U+205F, U+3000 and the byte order mark U+FEFF).
\<close>

definition is_white_space :: "16 word \<Rightarrow> bool" where
  "is_white_space c =
    (c \<in> {0x0009, 0x000A, 0x000B, 0x000C, 0x000D, 0x0020, 0x00A0, 0x1680,
           0x2000, 0x2001, 0x2002, 0x2003, 0x2004, 0x2005, 0x2006, 0x2007,
           0x2008, 0x2009, 0x200A, 0x2028, 0x2029, 0x202F, 0x205F, 0x3000, 0xFEFF})"

definition trim :: "jsstring \<Rightarrow> jsstring" where
  "trim s = rev (dropWhile is_white_space (rev (dropWhile is_white_space s)))"

section \<open>The handlers of the session controller\<close>

text \<open>
  \<^verbatim>\<open>recognition.onresult\<close>: the loop from \<^verbatim>\<open>event.resultIndex\<close> to the end of
  \<^verbatim>\<open>event.results\<close>, with its two accumulators. Reading \<^verbatim>\<open>.transcript\<close> of an
  alternative \<^verbatim>\<open>[0]\<close> that does not exist raises a TypeError.
\<close>

function onresult_loop ::
  "speech_result list \<Rightarrow> nat \<Rightarrow> jsstring \<Rightarrow> jsstring \<Rightarrow> js_error + (jsstring \<times> jsstring)"
where
  "onresult_loop rs i interimTranscript finalTranscript =
    (if i < length rs then
       (if isFinal (rs ! i) then
          (case alternatives (rs ! i) of
             [] \<Rightarrow> Inl TypeError
           | a # _ \<Rightarrow> onresult_loop rs (Suc i) interimTranscript (finalTranscript @ transcript a))
        else
          (case alternatives (rs ! i) of
             [] \<Rightarrow> Inl TypeError
           | a # _ \<Rightarrow> onresult_loop rs (Suc i) (interimTranscript @ transcript a) finalTranscript))
     else Inr (interimTranscript, finalTranscript))"
  by pat_completeness auto
termination
  by (relation "measure (\<lambda>(rs, i, _, _). length rs - i)") auto

declare onresult_loop.simps [simp del]

definition onresult :: "speech_event \<Rightarrow> app_state \<Rightarrow> app_state outcome" where
  "onresult event s =
    (case onresult_loop (results event) (resultIndex event) [] [] of
       Inl e \<Rightarrow> Throws e s
     | Inr (interimTranscript, finalTranscript) \<Rightarrow>
         Returns (s\<lparr>latestTranscript := finalTranscript @ interimTranscript\<rparr>))"

text \<open>
  \<^verbatim>\<open>recognition.onend\<close>; \<open>now\<close> is the value of \<^verbatim>\<open>Date.now()\<close>. The updater passed
  to \<^verbatim>\<open>setLatestTranscript\<close> runs once, on the current transcript.
\<close>

definition onend :: "int \<Rightarrow> app_state \<Rightarrow> app_state" where
  "onend now s =
    (let s1 = s\<lparr>isListening := False\<rparr>;
         prev = latestTranscript s1;
         s2 = (if trim prev \<noteq> []
               then s1\<lparr>messages := messages s1 @ [\<lparr>text_field = trim prev, timestamp = now\<rparr>]\<rparr>
               else s1)
     in s2\<lparr>latestTranscript := []\<rparr>)"

text \<open>\<^verbatim>\<open>recognition.onerror\<close>; \<open>code\<close> is \<^verbatim>\<open>event.error\<close>.\<close>

definition onerror :: "jsstring \<Rightarrow> app_state \<Rightarrow> app_state" where
  "onerror code s =
    (let s1 = (if code = no_speech_code
               then s\<lparr>error := no_speech_message\<rparr>
               else s\<lparr>error := generic_error_prefix @ code\<rparr>)
     in s1\<lparr>isListening := False\<rparr>)"

section \<open>Mounting, and the toggle button\<close>

text \<open>The state of a freshly loaded page: the module-level code creates the recognition
  object when the browser has the constructor, the four state cells have their initial
  values, and the first render has read them.\<close>

definition initial_state :: app_state where
  "initial_state = \<lparr>isListening = False, latestTranscript = [], messages = [], error = []\<rparr>"

definition initial_world :: "bool \<Rightarrow> world" where
  "initial_world capability =
    \<lparr>recognition = (if capability then Some \<lparr>handlers = False, calls = []\<rparr> else None),
     app = initial_state,
     rendered = initial_state\<rparr>"

text \<open>A render of \<^verbatim>\<open>App\<close>: every \<^verbatim>\<open>useState\<close> returns the current value of its
  cell.\<close>

definition rerender :: "world \<Rightarrow> world" where
  "rerender w = w\<lparr>rendered := app w\<rparr>"

text \<open>The effect that \<^verbatim>\<open>App\<close> runs once when it is mounted: without a recognition
  object it sets the error and returns, otherwise it assigns the three handlers.\<close>

definition mount_effect :: "world \<Rightarrow> world" where
  "mount_effect w =
    (case recognition w of
       None \<Rightarrow> w\<lparr>app := (app w)\<lparr>error := unsupported_message\<rparr>\<rparr>
     | Some r \<Rightarrow> w\<lparr>recognition := Some (r\<lparr>handlers := True\<rparr>)\<rparr>)"

text \<open>
  \<^verbatim>\<open>toggleListening\<close>. Its \<^verbatim>\<open>isListening\<close> is the constant of the last render, both
  in the test and in \<^verbatim>\<open>setIsListening(!isListening)\<close>; the setters write the cells. A
  method call on \<^verbatim>\<open>recognition\<close> when it is \<^verbatim>\<open>null\<close> raises a TypeError, and the
  rest of the function, \<^verbatim>\<open>setIsListening(!isListening)\<close>, is not run.
\<close>

definition toggleListening :: "world \<Rightarrow> world outcome" where
  "toggleListening w =
    (if isListening (rendered w) then
       (case recognition w of
          None \<Rightarrow> Throws TypeError w
        | Some r \<Rightarrow>
            Returns (w\<lparr>recognition := Some (r\<lparr>calls := calls r @ [Stop]\<rparr>),
                       app := (app w)\<lparr>isListening := \<not> isListening (rendered w)\<rparr>\<rparr>))
     else
       (let a1 = (app w)\<lparr>error := []\<rparr>;
            a2 = a1\<lparr>latestTranscript := []\<rparr>
        in case recognition w of
             None \<Rightarrow> Throws TypeError (w\<lparr>app := a2\<rparr>)
           | Some r \<Rightarrow>
               Returns (w\<lparr>recognition := Some (r\<lparr>calls := calls r @ [Start]\<rparr>),
                          app := a2\<lparr>isListening := \<not> isListening (rendered w)\<rparr>\<rparr>)))"

section \<open>The program as a sequence of operations\<close>

text \<open>
  Everything that changes the state: the mount effect, the three callbacks of the
  platform, a click on the button and a render. The platform delivers a callback only to
  a handler that has been assigned. A handler that throws ends there, and the page goes on
  with the state it has reached. React renders again some time after a setter has been
  called, so a render may come between any two of the other operations or be late.
\<close>

datatype operation =
  Mount | Result speech_event | End int | Error jsstring | Toggle | Render

definition handlers_assigned :: "world \<Rightarrow> bool" where
  "handlers_assigned w = (case recognition w of None \<Rightarrow> False | Some r \<Rightarrow> handlers r)"

fun perform :: "operation \<Rightarrow> world \<Rightarrow> world" where
  "perform Mount w = mount_effect w"
| "perform (Result event) w =
     (if handlers_assigned w then w\<lparr>app := state_after (onresult event (app w))\<rparr> else w)"
| "perform (End now) w =
     (if handlers_assigned w then w\<lparr>app := onend now (app w)\<rparr> else w)"
| "perform (Error code) w =
     (if handlers_assigned w then w\<lparr>app := onerror code (app w)\<rparr> else w)"
| "perform Toggle w = state_after (toggleListening w)"
| "perform Render w = rerender w"

definition run :: "operation list \<Rightarrow> world \<Rightarrow> world" where
  "run ops w = fold perform ops w"

section \<open>The auto-fit hook \<^verbatim>\<open>useFitText\<close>\<close>

text \<open>
  The browser's layout is a parameter: \<open>render content px\<close> is the pair
  \<^verbatim>\<open>(scrollWidth, scrollHeight)\<close> of the element holding \<open>content\<close> when its font size
  is \<open>px\<close> pixels. The parent's \<^verbatim>\<open>clientWidth\<close> and \<^verbatim>\<open>clientHeight\<close> are those
  of the container; they do not depend on the font size of the element, so reading them
  once before the loop and reading them at every test of the loop give the same values.
\<close>

type_synonym layout = "jsstring \<Rightarrow> int \<Rightarrow> int \<times> int"

record parent_box =
  clientWidth :: int
  clientHeight :: int

text \<open>The condition of the \<^verbatim>\<open>while\<close> loop without its bound on the size.\<close>

definition overflows :: "layout \<Rightarrow> jsstring \<Rightarrow> parent_box \<Rightarrow> int \<Rightarrow> bool" where
  "overflows render content parent px =
    (fst (render content px) > clientWidth parent \<or> snd (render content px) > clientHeight parent)"

function fit_loop :: "layout \<Rightarrow> jsstring \<Rightarrow> parent_box \<Rightarrow> int \<Rightarrow> int" where
  "fit_loop render content parent currentFontSize =
    (if overflows render content parent currentFontSize \<and> currentFontSize > 10
     then fit_loop render content parent (currentFontSize - 1)
     else currentFontSize)"
  by pat_completeness auto
termination
  by (relation "measure (\<lambda>(_, _, _, currentFontSize). nat (currentFontSize - 10))") auto

declare fit_loop.simps [simp del]

text \<open>The callback of the \<^verbatim>\<open>ResizeObserver\<close>: the new value of the state cell
  \<^verbatim>\<open>fontSize\<close>. Without a parent element it returns before setting anything.\<close>

definition resize_callback :: "layout \<Rightarrow> jsstring \<Rightarrow> parent_box option \<Rightarrow> int \<Rightarrow> int" where
  "resize_callback render content parentElement fontSize =
    (case parentElement of
       None \<Rightarrow> fontSize
     | Some parent \<Rightarrow> fit_loop render content parent 150)"

section \<open>The specification's reading of a result event\<close>

text \<open>
  The fragment of a slot is the transcript of its first alternative. The final part of
  an event is the concatenation of the fragments of its final slots from the start index
  on, in slot order; the interim part is that of the other slots. An event is well formed
  when each of these slots carries a fragment.
\<close>

definition fragment :: "speech_result \<Rightarrow> jsstring" where
  "fragment r = (case alternatives r of [] \<Rightarrow> [] | a # _ \<Rightarrow> transcript a)"

definition slots :: "speech_event \<Rightarrow> speech_result list" where
  "slots event = drop (resultIndex event) (results event)"

definition final_part :: "speech_event \<Rightarrow> jsstring" where
  "final_part event = concat (map fragment (filter isFinal (slots event)))"

definition interim_part :: "speech_event \<Rightarrow> jsstring" where
  "interim_part event = concat (map fragment (filter (\<lambda>r. \<not> isFinal r) (slots event)))"

definition carries_fragments :: "speech_event \<Rightarrow> bool" where
  "carries_fragments event = list_all (\<lambda>r. alternatives r \<noteq> []) (slots event)"

text \<open>The invariant of the history: no message is empty after trimming.\<close>

definition history_nonempty :: "app_state \<Rightarrow> bool" where
  "history_nonempty s = list_all (\<lambda>m. trim (text_field m) \<noteq> []) (messages s)"

section \<open>The result callback\<close>

lemma onresult_loop_eq:
  "onresult_loop rs i interimTranscript finalTranscript =
    (if list_all (\<lambda>r. alternatives r \<noteq> []) (drop i rs)
     then Inr (interimTranscript @ concat (map fragment (filter (\<lambda>r. \<not> isFinal r) (drop i rs))),
               finalTranscript @ concat (map fragment (filter isFinal (drop i rs))))
     else Inl TypeError)"
proof (induction rs i interimTranscript finalTranscript rule: onresult_loop.induct)
  case (1 rs i interimTranscript finalTranscript)
  show ?case
  proof (cases "i < length rs")
    case False
    then show ?thesis by (simp add: onresult_loop.simps [of rs i])
  next
    case inside: True
    then have unfold_drop: "drop i rs = rs ! i # drop (Suc i) rs"
      by (simp add: Cons_nth_drop_Suc)
    show ?thesis
    proof (cases "alternatives (rs ! i)")
      case Nil
      with inside show ?thesis
        by (simp add: onresult_loop.simps [of rs i] unfold_drop)
    next
      case (Cons a as)
      then have frag: "fragment (rs ! i) = transcript a"
        by (simp add: fragment_def)
      show ?thesis
      proof (cases "isFinal (rs ! i)")
        case True
        with inside Cons "1.IH"(1) [OF inside True Cons] show ?thesis
          by (simp add: onresult_loop.simps [of rs i] unfold_drop frag)
      next
        case False
        with inside Cons "1.IH"(2) [OF inside False Cons] show ?thesis
          by (simp add: onresult_loop.simps [of rs i] unfold_drop frag)
      qed
    qed
  qed
qed

text \<open>When a slot from the start index on has no alternative, the handler throws before
  it sets anything.\<close>

lemma onresult_throws:
  "\<not> carries_fragments event \<Longrightarrow> onresult event s = Throws TypeError s"
  by (simp add: onresult_def onresult_loop_eq carries_fragments_def slots_def)

text \<open>
  C1. After the result handler has run on an event whose slots carry their fragments,
  the live transcript is the event's final part followed by its interim part, whatever it
  was before; nothing else in the state changes.
\<close>

theorem onresult_sets_final_then_interim:
  assumes "carries_fragments event"
  shows "onresult event s =
           Returns (s\<lparr>latestTranscript := final_part event @ interim_part event\<rparr>)"
  using assms
  by (simp add: onresult_def onresult_loop_eq carries_fragments_def slots_def
        final_part_def interim_part_def)

text \<open>An event whose start index skips the first slot: the final slot comes first in
  the transcript, then the two interim slots, and the old transcript is gone.\<close>

theorem onresult_sets_final_then_interim_witness:
  "onresult
     \<lparr>resultIndex = 1,
      results = [\<lparr>isFinal = True, alternatives = [\<lparr>transcript = [0x0061]\<rparr>]\<rparr>,
                 \<lparr>isFinal = False, alternatives = [\<lparr>transcript = [0x0062]\<rparr>]\<rparr>,
                 \<lparr>isFinal = True, alternatives = [\<lparr>transcript = [0x0063]\<rparr>,
                                                 \<lparr>transcript = [0x0078]\<rparr>]\<rparr>,
                 \<lparr>isFinal = False, alternatives = [\<lparr>transcript = [0x0064]\<rparr>]\<rparr>]\<rparr>
     \<lparr>isListening = True, latestTranscript = [0x007A, 0x007A], messages = [], error = []\<rparr> =
   Returns \<lparr>isListening = True, latestTranscript = [0x0063, 0x0062, 0x0064],
            messages = [], error = []\<rparr>"
  using onresult_sets_final_then_interim
    [of "\<lparr>resultIndex = 1,
          results = [\<lparr>isFinal = True, alternatives = [\<lparr>transcript = [0x0061]\<rparr>]\<rparr>,
                     \<lparr>isFinal = False, alternatives = [\<lparr>transcript = [0x0062]\<rparr>]\<rparr>,
                     \<lparr>isFinal = True, alternatives = [\<lparr>transcript = [0x0063]\<rparr>,
                                                     \<lparr>transcript = [0x0078]\<rparr>]\<rparr>,
                     \<lparr>isFinal = False, alternatives = [\<lparr>transcript = [0x0064]\<rparr>]\<rparr>]\<rparr>"
        "\<lparr>isListening = True, latestTranscript = [0x007A, 0x007A], messages = [], error = []\<rparr>"]
  by (simp add: carries_fragments_def slots_def final_part_def interim_part_def fragment_def)

section \<open>Frame properties of the callbacks\<close>

text \<open>
  C8. An error callback, whatever its code, leaves the conversation history and the live
  transcript as they were: nothing is appended to the history.
\<close>

theorem onerror_keeps_history_and_transcript:
  "messages (onerror code s) = messages s \<and>
   latestTranscript (onerror code s) = latestTranscript s"
  by (simp add: onerror_def)

text \<open>
  C10. A result callback changes the live transcript only: the history, the listening
  flag and the error message are the same afterwards, also when the handler throws.
\<close>

theorem onresult_changes_transcript_only:
  "messages (state_after (onresult event s)) = messages s \<and>
   isListening (state_after (onresult event s)) = isListening s \<and>
   error (state_after (onresult event s)) = error s"
  by (simp add: onresult_def split: sum.split prod.split)

section \<open>Trimming\<close>

text \<open>A trimmed string has no white space at either end, so trimming it again changes
  nothing.\<close>

lemma last_dropWhile_nonempty: "dropWhile P xs \<noteq> [] \<Longrightarrow> last (dropWhile P xs) = last xs"
  by (induction xs) (auto split: if_splits)

lemma dropWhile_unchanged: "xs = [] \<or> \<not> P (hd xs) \<Longrightarrow> dropWhile P xs = xs"
  by (cases xs) auto

lemma trim_no_leading_space: "dropWhile is_white_space (trim s) = trim s"
proof -
  define a where "a = dropWhile is_white_space s"
  define b where "b = dropWhile is_white_space (rev a)"
  have t: "trim s = rev b" by (simp add: trim_def a_def b_def)
  have "rev b = [] \<or> \<not> is_white_space (hd (rev b))"
  proof (cases "b = []")
    case True then show ?thesis by simp
  next
    case False
    then have "last b = last (rev a)" unfolding b_def by (rule last_dropWhile_nonempty)
    moreover from False have "a \<noteq> []" by (auto simp: b_def)
    ultimately have "hd (rev b) = hd a" using False by (simp add: hd_rev last_rev)
    moreover from \<open>a \<noteq> []\<close> have "\<not> is_white_space (hd a)" unfolding a_def by (rule hd_dropWhile)
    ultimately show ?thesis by simp
  qed
  then show ?thesis unfolding t by (rule dropWhile_unchanged)
qed

lemma trim_idempotent: "trim (trim s) = trim s"
proof -
  have "trim (trim s) = rev (dropWhile is_white_space (rev (trim s)))"
    by (simp add: trim_def [of "trim s"] trim_no_leading_space)
  also have "\<dots> = trim s" by (simp add: trim_def)
  finally show ?thesis .
qed

section \<open>The end of a session\<close>

text \<open>
  C3. When the live transcript trims to a non-empty string, the end-of-session handler
  appends exactly one message, whose text is the trimmed transcript and whose timestamp
  is the time of the end of the session, empties the live transcript and sets
  \<open>isListening\<close> to false.
\<close>

theorem onend_appends_trimmed:
  assumes "trim (latestTranscript s) \<noteq> []"
  shows "messages (onend now s) =
           messages s @ [\<lparr>text_field = trim (latestTranscript s), timestamp = now\<rparr>] \<and>
         latestTranscript (onend now s) = [] \<and>
         isListening (onend now s) = False \<and>
         error (onend now s) = error s"
  using assms by (simp add: onend_def Let_def)

text \<open>The transcript of five Hangul syllables followed by two spaces is stored without
  the spaces.\<close>

theorem onend_appends_trimmed_witness:
  "onend 1700000000000
     \<lparr>isListening = True,
      latestTranscript = [0xC548, 0xB155, 0xD558, 0xC138, 0xC694, 0x0020, 0x0020],
      messages = [], error = []\<rparr> =
   \<lparr>isListening = False, latestTranscript = [],
    messages = [\<lparr>text_field = [0xC548, 0xB155, 0xD558, 0xC138, 0xC694],
                 timestamp = 1700000000000\<rparr>],
    error = []\<rparr>"
  using onend_appends_trimmed
    [of "\<lparr>isListening = True,
          latestTranscript = [0xC548, 0xB155, 0xD558, 0xC138, 0xC694, 0x0020, 0x0020],
          messages = [], error = []\<rparr>" 1700000000000]
  by (simp add: trim_def is_white_space_def onend_def)

section \<open>The conversation history\<close>

text \<open>What each operation does to the list of messages.\<close>

lemma onend_history_nonempty: "history_nonempty s \<Longrightarrow> history_nonempty (onend now s)"
  by (simp add: onend_def history_nonempty_def Let_def trim_idempotent)

lemma onerror_messages: "messages (onerror code s) = messages s"
  by (simp add: onerror_def)

lemma onresult_messages: "messages (state_after (onresult event s)) = messages s"
  by (simp add: onresult_def split: sum.split prod.split)

lemma mount_effect_messages: "messages (app (mount_effect w)) = messages (app w)"
  by (simp add: mount_effect_def split: option.split)

lemma toggleListening_messages:
  "messages (app (state_after (toggleListening w))) = messages (app w)"
  by (simp add: toggleListening_def Let_def split: option.split)

lemma rerender_messages: "messages (app (rerender w)) = messages (app w)"
  by (simp add: rerender_def)

lemma onend_messages:
  "messages (onend now s) =
     (if trim (latestTranscript s) \<noteq> []
      then messages s @ [\<lparr>text_field = trim (latestTranscript s), timestamp = now\<rparr>]
      else messages s)"
  by (simp add: onend_def Let_def)

lemma perform_messages:
  "messages (app (perform op w)) = messages (app w) \<or>
   (\<exists>m. messages (app (perform op w)) = messages (app w) @ [m])"
  by (cases op)
    (simp_all add: mount_effect_messages toggleListening_messages onresult_messages
       onerror_messages onend_messages rerender_messages)

lemma perform_history_nonempty:
  "history_nonempty (app w) \<Longrightarrow> history_nonempty (app (perform op w))"
proof (cases op)
  case (End now)
  assume "history_nonempty (app w)"
  with End show ?thesis by (simp add: onend_history_nonempty)
next
  case Mount
  assume "history_nonempty (app w)"
  with Mount show ?thesis by (simp add: history_nonempty_def mount_effect_messages)
next
  case (Result event)
  assume "history_nonempty (app w)"
  with Result show ?thesis by (simp add: history_nonempty_def onresult_messages)
next
  case (Error code)
  assume "history_nonempty (app w)"
  with Error show ?thesis by (simp add: history_nonempty_def onerror_messages)
next
  case Toggle
  assume "history_nonempty (app w)"
  with Toggle show ?thesis by (simp add: history_nonempty_def toggleListening_messages)
next
  case Render
  assume "history_nonempty (app w)"
  with Render show ?thesis by (simp add: history_nonempty_def rerender_messages)
qed

lemma run_history_nonempty:
  "history_nonempty (app w) \<Longrightarrow> history_nonempty (app (run ops w))"
  unfolding run_def
  by (induction ops arbitrary: w) (simp_all add: perform_history_nonempty)

lemma run_messages_extend: "\<exists>extra. messages (app (run ops w)) = messages (app w) @ extra"
  unfolding run_def
proof (induction ops arbitrary: w)
  case Nil
  show ?case by simp
next
  case (Cons op ops)
  from Cons [of "perform op w"] obtain extra where
    "messages (app (fold perform ops (perform op w))) = messages (app (perform op w)) @ extra"
    by blast
  with perform_messages [of op w] show ?case by auto
qed


text \<open>
  C4. Every message of the history is non-empty after trimming: this holds in every
  state the program reaches from a freshly loaded page, every operation preserves it, and
  ending a session whose live transcript is empty or white space only appends nothing.
\<close>

theorem history_texts_never_empty:
  "history_nonempty (app (run ops (initial_world capability))) \<and>
   (history_nonempty (app w) \<longrightarrow> history_nonempty (app (perform op w))) \<and>
   (trim (latestTranscript s) = [] \<longrightarrow> messages (onend now s) = messages s)"
proof -
  have "history_nonempty (app (initial_world capability))"
    by (simp add: history_nonempty_def initial_world_def initial_state_def)
  then have "history_nonempty (app (run ops (initial_world capability)))"
    by (rule run_history_nonempty)
  then show ?thesis
    by (simp add: perform_history_nonempty onend_messages)
qed

text \<open>A session that ends with three spaces in the live transcript.\<close>

theorem history_texts_never_empty_witness:
  "messages (onend 1700000000000
      \<lparr>isListening = True, latestTranscript = [0x0020, 0x0020, 0x0020],
       messages = [\<lparr>text_field = [0xC548, 0xB155], timestamp = 1600000000000\<rparr>],
       error = []\<rparr>) =
     [\<lparr>text_field = [0xC548, 0xB155], timestamp = 1600000000000\<rparr>] \<and>
   history_nonempty (app (perform (End 1700000000000)
      \<lparr>recognition = Some \<lparr>handlers = True, calls = [Start]\<rparr>,
       app = \<lparr>isListening = True, latestTranscript = [0x0020, 0x0020, 0x0020],
              messages = [\<lparr>text_field = [0xC548, 0xB155], timestamp = 1600000000000\<rparr>],
              error = []\<rparr>,
       rendered = \<lparr>isListening = True, latestTranscript = [0x0020, 0x0020],
                   messages = [\<lparr>text_field = [0xC548, 0xB155], timestamp = 1600000000000\<rparr>],
                   error = []\<rparr>\<rparr>))"
  using history_texts_never_empty
    [of "[]" True
        "\<lparr>recognition = Some \<lparr>handlers = True, calls = [Start]\<rparr>,
          app = \<lparr>isListening = True, latestTranscript = [0x0020, 0x0020, 0x0020],
                 messages = [\<lparr>text_field = [0xC548, 0xB155], timestamp = 1600000000000\<rparr>],
                 error = []\<rparr>,
          rendered = \<lparr>isListening = True, latestTranscript = [0x0020, 0x0020],
                      messages = [\<lparr>text_field = [0xC548, 0xB155], timestamp = 1600000000000\<rparr>],
                      error = []\<rparr>\<rparr>"
        "End 1700000000000"
        "\<lparr>isListening = True, latestTranscript = [0x0020, 0x0020, 0x0020],
          messages = [\<lparr>text_field = [0xC548, 0xB155], timestamp = 1600000000000\<rparr>],
          error = []\<rparr>"
        1700000000000]
  by (simp add: trim_def is_white_space_def history_nonempty_def)

text \<open>
  C5. The history is append-only: an operation leaves the list of messages as it is or
  appends one message at its end; after any sequence of operations the earlier list is a
  prefix of the later one, so a message appended by an earlier session stays at its
  position, with the same text and timestamp, before every message of a later session.
\<close>

theorem history_append_only:
  "(messages (app (perform op w)) = messages (app w) \<or>
    (\<exists>m. messages (app (perform op w)) = messages (app w) @ [m])) \<and>
   (\<exists>extra. messages (app (run ops w)) = messages (app w) @ extra) \<and>
   (i < length (messages (app w)) \<longrightarrow>
      messages (app (run ops w)) ! i = messages (app w) ! i)"
proof -
  obtain extra where "messages (app (run ops w)) = messages (app w) @ extra"
    using run_messages_extend by blast
  then have "i < length (messages (app w)) \<longrightarrow>
      messages (app (run ops w)) ! i = messages (app w) ! i"
    by (simp add: nth_append)
  with perform_messages [of op w] run_messages_extend [of ops w] show ?thesis
    by blast
qed

text \<open>A second session after a first one that left a message: the older message stays
  first.\<close>

theorem history_append_only_witness:
  "messages (app (run [Toggle, Render,
        Result \<lparr>resultIndex = 0,
                results = [\<lparr>isFinal = True, alternatives = [\<lparr>transcript = [0xB124]\<rparr>]\<rparr>,
                           \<lparr>isFinal = False, alternatives = [\<lparr>transcript = [0x0020]\<rparr>]\<rparr>]\<rparr>,
        End 1700000000000]
      \<lparr>recognition = Some \<lparr>handlers = True, calls = [Start, Stop]\<rparr>,
       app = \<lparr>isListening = False, latestTranscript = [],
              messages = [\<lparr>text_field = [0xC548, 0xB155], timestamp = 1600000000000\<rparr>],
              error = []\<rparr>,
       rendered = \<lparr>isListening = False, latestTranscript = [],
                   messages = [\<lparr>text_field = [0xC548, 0xB155], timestamp = 1600000000000\<rparr>],
                   error = []\<rparr>\<rparr>)) =
     [\<lparr>text_field = [0xC548, 0xB155], timestamp = 1600000000000\<rparr>,
      \<lparr>text_field = [0xB124], timestamp = 1700000000000\<rparr>]"
  using history_append_only
    [of "End 1700000000000"
        "\<lparr>recognition = Some \<lparr>handlers = True, calls = [Start, Stop]\<rparr>,
          app = \<lparr>isListening = False, latestTranscript = [],
                 messages = [\<lparr>text_field = [0xC548, 0xB155], timestamp = 1600000000000\<rparr>],
                 error = []\<rparr>,
          rendered = \<lparr>isListening = False, latestTranscript = [],
                      messages = [\<lparr>text_field = [0xC548, 0xB155], timestamp = 1600000000000\<rparr>],
                      error = []\<rparr>\<rparr>"
        "[Toggle, Render,
          Result \<lparr>resultIndex = 0,
                  results = [\<lparr>isFinal = True, alternatives = [\<lparr>transcript = [0xB124]\<rparr>]\<rparr>,
                             \<lparr>isFinal = False, alternatives = [\<lparr>transcript = [0x0020]\<rparr>]\<rparr>]\<rparr>,
          End 1700000000000]"
        0]
  by (simp add: run_def handlers_assigned_def toggleListening_def rerender_def Let_def
        onresult_def onresult_loop_eq fragment_def onend_def trim_def is_white_space_def)

section \<open>The error callback\<close>

text \<open>
  C7. An error callback with the code \<^verbatim>\<open>"no-speech"\<close> sets the error to the message
  for that case; with any other code it sets the error to the generic prefix followed by
  the code, which therefore occurs in it as a substring. In both cases \<open>isListening\<close>
  becomes false. The message for \<^verbatim>\<open>"no-speech"\<close> is none of the generic messages.
\<close>

theorem onerror_sets_message:
  "(code = no_speech_code \<longrightarrow> error (onerror code s) = no_speech_message) \<and>
   (code \<noteq> no_speech_code \<longrightarrow>
      error (onerror code s) = generic_error_prefix @ code \<and>
      sublist code (error (onerror code s))) \<and>
   isListening (onerror code s) = False \<and>
   no_speech_message \<noteq> generic_error_prefix @ other"
proof -
  have "sublist code (generic_error_prefix @ code)"
    by (rule sublist_append_leftI)
  moreover have "no_speech_message \<noteq> generic_error_prefix @ other"
    by (simp add: no_speech_message_def generic_error_prefix_def)
  ultimately show ?thesis
    by (simp add: onerror_def)
qed

text \<open>The codes \<^verbatim>\<open>"no-speech"\<close> and \<^verbatim>\<open>"network"\<close>.\<close>

theorem onerror_sets_message_witness:
  "error (onerror no_speech_code initial_state) = no_speech_message \<and>
   error (onerror [0x006E, 0x0065, 0x0074, 0x0077, 0x006F, 0x0072, 0x006B]
            (initial_state\<lparr>isListening := True\<rparr>)) =
     [0xC74C, 0xC131, 0x0020, 0xC778, 0xC2DD, 0x0020, 0xC624, 0xB958, 0x003A, 0x0020,
      0x006E, 0x0065, 0x0074, 0x0077, 0x006F, 0x0072, 0x006B] \<and>
   \<not> isListening (onerror [0x006E, 0x0065, 0x0074, 0x0077, 0x006F, 0x0072, 0x006B]
            (initial_state\<lparr>isListening := True\<rparr>))"
  using onerror_sets_message [of no_speech_code initial_state]
    onerror_sets_message [of "[0x006E, 0x0065, 0x0074, 0x0077, 0x006F, 0x0072, 0x006B]"
      "initial_state\<lparr>isListening := True\<rparr>"]
  by (simp add: no_speech_code_def generic_error_prefix_def)

section \<open>The toggle button\<close>

text \<open>
  C9. A toggle whose \<^verbatim>\<open>isListening\<close>, the constant of the last render, is false, on a
  page that has a recognition object, empties the error and the live transcript, sends
  \<open>Start\<close> to the recognition object and sets \<open>isListening\<close> to true; the history is
  unchanged and nothing is thrown.
\<close>

theorem toggle_from_idle_starts:
  assumes "\<not> isListening (rendered w)" and "recognition w = Some r"
  shows "let w' = state_after (toggleListening w) in
           thrown (toggleListening w) = None \<and>
           error (app w') = [] \<and>
           latestTranscript (app w') = [] \<and>
           isListening (app w') = True \<and>
           messages (app w') = messages (app w) \<and>
           recognition w' = Some (r\<lparr>calls := calls r @ [Start]\<rparr>)"
  using assms by (simp add: toggleListening_def Let_def)

text \<open>A toggle after an earlier session that ended with an error message, on a page that
  has rendered since.\<close>

theorem toggle_from_idle_starts_witness:
  "toggleListening (rerender
     \<lparr>recognition = Some \<lparr>handlers = True, calls = [Start, Stop]\<rparr>,
      app = \<lparr>isListening = False, latestTranscript = [0xC548],
             messages = [\<lparr>text_field = [0xC548, 0xB155], timestamp = 1600000000000\<rparr>],
             error = no_speech_message\<rparr>,
      rendered = initial_state\<rparr>) =
   Returns
     \<lparr>recognition = Some \<lparr>handlers = True, calls = [Start, Stop, Start]\<rparr>,
      app = \<lparr>isListening = True, latestTranscript = [],
             messages = [\<lparr>text_field = [0xC548, 0xB155], timestamp = 1600000000000\<rparr>],
             error = []\<rparr>,
      rendered = \<lparr>isListening = False, latestTranscript = [0xC548],
                  messages = [\<lparr>text_field = [0xC548, 0xB155], timestamp = 1600000000000\<rparr>],
                  error = no_speech_message\<rparr>\<rparr>"
  using toggle_from_idle_starts
    [of "rerender
          \<lparr>recognition = Some \<lparr>handlers = True, calls = [Start, Stop]\<rparr>,
           app = \<lparr>isListening = False, latestTranscript = [0xC548],
                  messages = [\<lparr>text_field = [0xC548, 0xB155], timestamp = 1600000000000\<rparr>],
                  error = no_speech_message\<rparr>,
           rendered = initial_state\<rparr>"
        "\<lparr>handlers = True, calls = [Start, Stop]\<rparr>"]
  by (simp add: toggleListening_def rerender_def Let_def)

text \<open>
  The session being idle is not enough. After a start and a render, an error callback
  and the end callback leave the cell \<open>isListening\<close> false, but until the next render
  the toggle still reads true: it sends \<open>Stop\<close>, not \<open>Start\<close>, keeps the error message
  and writes false to \<open>isListening\<close>.
\<close>

theorem toggle_before_rerender_counterexample:
  "isListening (app (run [Mount, Toggle, Render, Error no_speech_code, End 1700000000000]
      (initial_world True))) = False \<and>
   toggleListening (run [Mount, Toggle, Render, Error no_speech_code, End 1700000000000]
      (initial_world True)) =
     Returns
       \<lparr>recognition = Some \<lparr>handlers = True, calls = [Start, Stop]\<rparr>,
        app = \<lparr>isListening = False, latestTranscript = [], messages = [],
               error = no_speech_message\<rparr>,
        rendered = \<lparr>isListening = True, latestTranscript = [], messages = [],
                    error = []\<rparr>\<rparr>"
  by (simp add: run_def initial_world_def initial_state_def mount_effect_def
        toggleListening_def rerender_def handlers_assigned_def onerror_def onend_def
        trim_def Let_def)

text \<open>
  C6. On a page without a recognition object the mount effect sets the error to the
  message for an unsupported browser. A toggle in that state, before or after the next
  render, sends no command, but it does not leave the state as it was: it empties the
  error before the call of \<^verbatim>\<open>start\<close> on \<^verbatim>\<open>null\<close> raises a TypeError.
\<close>

theorem toggle_without_recognition:
  "error (app (mount_effect (initial_world False))) = unsupported_message \<and>
   toggleListening (mount_effect (initial_world False)) =
     Throws TypeError
       \<lparr>recognition = None, app = initial_state, rendered = initial_state\<rparr> \<and>
   error (app (state_after (toggleListening (mount_effect (initial_world False))))) = [] \<and>
   state_after (toggleListening (mount_effect (initial_world False))) \<noteq>
     mount_effect (initial_world False) \<and>
   toggleListening (rerender (mount_effect (initial_world False))) =
     Throws TypeError
       \<lparr>recognition = None, app = initial_state,
        rendered = initial_state\<lparr>error := unsupported_message\<rparr>\<rparr> \<and>
   app (state_after (toggleListening (rerender (mount_effect (initial_world False))))) \<noteq>
     app (rerender (mount_effect (initial_world False)))"
  by (simp add: mount_effect_def initial_world_def initial_state_def toggleListening_def
        rerender_def Let_def unsupported_message_def)

section \<open>The auto-fit loop\<close>

text \<open>The loop goes down from its start while the content overflows and the size is
  above 10; every size it passes overflows.\<close>

lemma fit_loop_step:
  "overflows render content parent n \<and> n > 10 \<Longrightarrow>
   fit_loop render content parent n = fit_loop render content parent (n - 1)"
  by (subst fit_loop.simps) simp

lemma fit_loop_exit:
  "\<not> (overflows render content parent n \<and> n > 10) \<Longrightarrow> fit_loop render content parent n = n"
  by (subst fit_loop.simps) auto

lemma fit_loop_bounds:
  "10 \<le> n \<Longrightarrow>
   10 \<le> fit_loop render content parent n \<and> fit_loop render content parent n \<le> n"
proof (induction render content parent n rule: fit_loop.induct)
  case (1 render content parent n)
  show ?case
  proof (cases "overflows render content parent n \<and> n > 10")
    case True
    with "1.IH" have "10 \<le> fit_loop render content parent (n - 1) \<and>
        fit_loop render content parent (n - 1) \<le> n - 1"
      by simp
    then show ?thesis by (simp add: fit_loop_step [OF True])
  next
    case False
    with "1.prems" show ?thesis by (simp add: fit_loop_exit [OF False])
  qed
qed

lemma fit_loop_stops:
  "10 \<le> n \<Longrightarrow>
   fit_loop render content parent n = 10 \<or>
   \<not> overflows render content parent (fit_loop render content parent n)"
proof (induction render content parent n rule: fit_loop.induct)
  case (1 render content parent n)
  show ?case
  proof (cases "overflows render content parent n \<and> n > 10")
    case True
    with "1.IH" have "fit_loop render content parent (n - 1) = 10 \<or>
        \<not> overflows render content parent (fit_loop render content parent (n - 1))"
      by simp
    then show ?thesis by (simp add: fit_loop_step [OF True])
  next
    case False
    with "1.prems" have "n = 10 \<or> \<not> overflows render content parent n"
      by auto
    then show ?thesis by (simp add: fit_loop_exit [OF False])
  qed
qed

lemma fit_loop_skips_only_overflow:
  "fit_loop render content parent n < px \<Longrightarrow> px \<le> n \<Longrightarrow> overflows render content parent px"
proof (induction render content parent n rule: fit_loop.induct)
  case (1 render content parent n)
  show ?case
  proof (cases "overflows render content parent n \<and> n > 10")
    case looping: True
    show ?thesis
    proof (cases "px = n")
      case True
      with looping show ?thesis by simp
    next
      case False
      with "1.prems" have "fit_loop render content parent (n - 1) < px" and "px \<le> n - 1"
        by (simp_all add: fit_loop_step [OF looping])
      with "1.IH" looping show ?thesis by simp
    qed
  next
    case False
    with "1.prems" show ?thesis by (simp add: fit_loop_exit [OF False])
  qed
qed

text \<open>
  C2. For every content and every container, when overflow is monotone in the font
  size, the font size the resize callback computes lies between 10 and 150; if some
  integer size in that range does not overflow, the computed size does not overflow and
  is the largest such size; if none does, the computed size is 10.
\<close>

theorem auto_fit_largest:
  assumes "\<forall>a b. a \<le> b \<longrightarrow> overflows render content parent a \<longrightarrow> overflows render content parent b"
  shows "let r = resize_callback render content (Some parent) fontSize in
           10 \<le> r \<and> r \<le> 150 \<and>
           (if \<exists>px. 10 \<le> px \<and> px \<le> 150 \<and> \<not> overflows render content parent px
            then \<not> overflows render content parent r \<and>
                 (\<forall>px. 10 \<le> px \<and> px \<le> 150 \<and> \<not> overflows render content parent px \<longrightarrow> px \<le> r)
            else r = 10)"
proof -
  define r where "r = fit_loop render content parent 150"
  have bounds: "10 \<le> r \<and> r \<le> 150"
    unfolding r_def by (rule fit_loop_bounds) simp
  have stops: "r = 10 \<or> \<not> overflows render content parent r"
    unfolding r_def by (rule fit_loop_stops) simp
  have largest: "px \<le> r" if "px \<le> 150" and "\<not> overflows render content parent px" for px
    using that fit_loop_skips_only_overflow [of render content parent 150 px]
    unfolding r_def by force
  have fits: "\<not> overflows render content parent r"
    if "10 \<le> px" and "px \<le> 150" and "\<not> overflows render content parent px" for px
  proof (cases "r = 10")
    case True
    with largest [OF that(2) that(3)] that(1) have "px = r" by simp
    with that(3) show ?thesis by simp
  next
    case False
    with stops show ?thesis by simp
  qed
  have none: "r = 10" if "\<forall>px. 10 \<le> px \<and> px \<le> 150 \<longrightarrow> overflows render content parent px"
    using that bounds stops by blast
  have "resize_callback render content (Some parent) fontSize = r"
    by (simp add: resize_callback_def r_def)
  with bounds largest fits none show ?thesis
    unfolding Let_def by (auto split: if_splits)
qed

text \<open>Five characters in a container of 300 by 100, each character as wide and as high
  as the font size: the computed size is 60.\<close>

theorem auto_fit_largest_witness:
  "resize_callback (\<lambda>content px. (px * int (length content), px))
     [0x0068, 0x0065, 0x006C, 0x006C, 0x006F]
     (Some \<lparr>clientWidth = 300, clientHeight = 100\<rparr>) 100 = 60"
proof -
  let ?render = "\<lambda>(content :: jsstring) (px :: int). (px * int (length content), px)"
  let ?content = "[0x0068, 0x0065, 0x006C, 0x006C, 0x006F] :: jsstring"
  let ?parent = "\<lparr>clientWidth = 300, clientHeight = 100\<rparr>"
  let ?r = "resize_callback ?render ?content (Some ?parent) 100"
  have ov: "overflows ?render ?content ?parent px = (60 < px)" for px
    by (auto simp add: overflows_def)
  have "\<forall>a b. a \<le> b \<longrightarrow> overflows ?render ?content ?parent a \<longrightarrow> overflows ?render ?content ?parent b"
    by (simp add: ov)
  from auto_fit_largest [OF this, of 100]
  have "\<not> overflows ?render ?content ?parent ?r" and "60 \<le> ?r"
    unfolding Let_def ov by (auto split: if_splits)
  then show ?thesis by (simp add: ov)
qed

end
